theory Spec2Isabelle
  imports Main "HOL-Library.Sublist"
begin

section \<open>Data model of \<^verbatim>\<open>datetime/parser.ts\<close>\<close>

text \<open>
  Modelled from the spec: the shapes of \<^verbatim>\<open>DateTimeInput\<close> other than a \<^verbatim>\<open>DateTime\<close> and a
  string (the type is declared in \<^verbatim>\<open>moment_wrapper\<close>, which is not among the sources): a
  numeric epoch, a native date object and an array of date components.
\<close>

datatype Scalar = Epoch int | NativeDate int | Components "int list"

text \<open>
  \<^verbatim>\<open>DateTimeInput\<close>. The type \<open>'dt\<close> is \<^verbatim>\<open>DateTime\<close>, the instant type of the moment wrapper;
  the parser never looks inside one. \<^verbatim>\<open>isDateTime(value)\<close> is the test for the first
  constructor, \<^verbatim>\<open>typeof value === 'string'\<close> the test for the second.
\<close>

datatype 'dt DateTimeInput = DateTimeValue 'dt | StringValue string | OtherValue Scalar

text \<open>
  \<^verbatim>\<open>DateTimeOptions\<close> (imported from \<^verbatim>\<open>common\<close>) and its extension
  \<^verbatim>\<open>DateTimeOptionsWhenParsing\<close>, declared in the parser. Both fields are optional.
\<close>

record DateTimeOptions =
  timeZone :: "string option"

record DateTimeOptionsWhenParsing = DateTimeOptions +
  roundUp :: "bool option"

text \<open>The part of moment-timezone's zone object that the parser reads.\<close>

record MomentZone =
  name :: string

text \<open>The exception an imported function can end with.\<close>

datatype JsError = TypeError

text \<open>
  The functions the parser imports. They are parameters of the model:
  \<^item> \<open>isValid\<close> and \<open>parse\<close> are \<^verbatim>\<open>datemath.isValid\<close> and \<^verbatim>\<open>datemath.parse\<close>; the latter
    returns \<^verbatim>\<open>DateTime | undefined\<close>;
  \<^item> \<open>getTimeZone\<close> is \<^verbatim>\<open>common.getTimeZone\<close>, declared over \<^verbatim>\<open>DateTimeOptions\<close>;
  \<^item> \<open>tz_zone\<close> is \<^verbatim>\<open>moment.tz.zone\<close>, which returns a zone or \<^verbatim>\<open>null\<close>, or throws (for the
    names \<open>getZone\<close> below gives);
  \<^item> \<open>moment_tz\<close>, \<open>moment_utc\<close> and \<open>moment_of\<close> are \<^verbatim>\<open>moment.tz(date, name)\<close>,
    \<^verbatim>\<open>moment.utc(date)\<close> and \<^verbatim>\<open>moment(date)\<close>, which return an instant for every argument, an
    invalid one for a date they cannot read;
  \<^item> \<open>moment_now\<close> is \<^verbatim>\<open>moment()\<close>, the instant the wall clock shows at the call;
  \<^item> \<open>lowerCase\<close> is lodash's \<^verbatim>\<open>lowerCase\<close>.
\<close>

record 'dt Collaborators =
  isValid :: "string \<Rightarrow> bool"
  parse :: "string \<Rightarrow> bool option \<Rightarrow> string option \<Rightarrow> 'dt option"
  getTimeZone :: "DateTimeOptions option \<Rightarrow> string"
  tz_zone :: "string \<Rightarrow> JsError + MomentZone option"
  moment_tz :: "'dt DateTimeInput \<Rightarrow> string \<Rightarrow> 'dt"
  moment_utc :: "'dt DateTimeInput \<Rightarrow> 'dt"
  moment_of :: "'dt DateTimeInput \<Rightarrow> 'dt"
  moment_now :: "'dt"
  lowerCase :: "string \<Rightarrow> string"

text \<open>
  A call of an imported function, with its arguments. Every function of the parser
  returns the calls it made, in the order it made them, together with its outcome: the
  instant it returns (\<open>Inr\<close>), or the exception that ended it (\<open>Inl\<close>).
\<close>

datatype 'dt Call =
    IsValid string
  | Parse string "bool option" "string option"
  | GetTimeZone "DateTimeOptions option"
  | TzZone string
  | MomentTz "'dt DateTimeInput" string
  | LowerCase string
  | MomentUtc "'dt DateTimeInput"
  | Moment "'dt DateTimeInput"
  | MomentNow

section \<open>The parser\<close>

text \<open>
  \<^verbatim>\<open>String.prototype.indexOf(searchString)\<close>: the index of the first occurrence of
  \<open>searchString\<close>, or \<open>-1\<close>. \<open>indexOfFrom\<close> carries the index of the position it looks at.
\<close>

fun indexOfFrom :: "string \<Rightarrow> string \<Rightarrow> nat \<Rightarrow> int" where
  "indexOfFrom searchString [] k = (if searchString = [] then int k else - 1)"
| "indexOfFrom searchString (c # cs) k =
     (if prefix searchString (c # cs) then int k else indexOfFrom searchString cs (Suc k))"

definition indexOf :: "string \<Rightarrow> string \<Rightarrow> int" where
  "indexOf s searchString = indexOfFrom searchString s 0"

text \<open>
  \<^verbatim>\<open>parseOthers\<close>. \<^verbatim>\<open>getTimeZone\<close> takes the options at the type \<^verbatim>\<open>DateTimeOptions\<close>, which has
  no \<^verbatim>\<open>roundUp\<close>. \<^verbatim>\<open>zone && zone.name\<close> holds when the zone is not \<^verbatim>\<open>null\<close> and its name is not
  the empty string. The call of \<^verbatim>\<open>moment.tz.zone\<close> stands in no \<^verbatim>\<open>try\<close>: when it throws,
  \<^verbatim>\<open>parseOthers\<close> ends with its exception.
\<close>

definition parseOthers ::
  "'dt Collaborators \<Rightarrow> 'dt DateTimeInput \<Rightarrow> DateTimeOptionsWhenParsing option
    \<Rightarrow> 'dt Call list \<times> (JsError + 'dt)" where
  "parseOthers env v options =
     (let date = v;
          opts = map_option DateTimeOptions.truncate options;
          tz = getTimeZone env opts;
          lookup = [GetTimeZone opts, TzZone tz];
          literal =
            (if lowerCase env tz = ''utc''
             then (lookup @ [LowerCase tz, MomentUtc date], Inr (moment_utc env date))
             else (lookup @ [LowerCase tz, Moment date], Inr (moment_of env date)))
      in case tz_zone env tz of
           Inl e \<Rightarrow> (lookup, Inl e)
         | Inr None \<Rightarrow> literal
         | Inr (Some z) \<Rightarrow>
             if name z \<noteq> []
             then (lookup @ [MomentTz date (name z)], Inr (moment_tz env date (name z)))
             else literal)"

text \<open>
  \<^verbatim>\<open>parseString\<close>. \<^verbatim>\<open>options?.roundUp\<close> is \<^verbatim>\<open>undefined\<close> when there are no options or the
  field is absent; \<^verbatim>\<open>parsed || moment()\<close> reads the clock only when \<^verbatim>\<open>parsed\<close> is
  \<^verbatim>\<open>undefined\<close>.
\<close>

definition parseString ::
  "'dt Collaborators \<Rightarrow> string \<Rightarrow> DateTimeOptionsWhenParsing option
    \<Rightarrow> 'dt Call list \<times> (JsError + 'dt)" where
  "parseString env s options =
     (if indexOf s ''now'' \<noteq> - 1 then
        (if \<not> isValid env s then ([IsValid s, MomentNow], Inr (moment_now env))
         else
           (let r = Option.bind options roundUp;
                t = Option.bind options timeZone
            in case parse env s r t of
                 Some parsed \<Rightarrow> ([IsValid s, Parse s r t], Inr parsed)
               | None \<Rightarrow> ([IsValid s, Parse s r t, MomentNow], Inr (moment_now env))))
      else parseOthers env (StringValue s) options)"

text \<open>\<^verbatim>\<open>dateTimeParse\<close>.\<close>

definition dateTimeParse ::
  "'dt Collaborators \<Rightarrow> 'dt DateTimeInput \<Rightarrow> DateTimeOptionsWhenParsing option
    \<Rightarrow> 'dt Call list \<times> (JsError + 'dt)" where
  "dateTimeParse env v options =
     (case v of
        DateTimeValue d \<Rightarrow> ([], Inr d)
      | StringValue s \<Rightarrow> parseString env s options
      | OtherValue x \<Rightarrow> parseOthers env v options)"

text \<open>
  The values that \<^verbatim>\<open>dateTimeParse\<close> hands to \<^verbatim>\<open>parseOthers\<close>, by its own tests: not a
  \<^verbatim>\<open>DateTime\<close>, and not a string in which \<^verbatim>\<open>indexOf\<close> finds \<open>now\<close>.
\<close>

definition reachesParseOthers :: "'dt DateTimeInput \<Rightarrow> bool" where
  "reachesParseOthers v =
     (case v of
        DateTimeValue d \<Rightarrow> False
      | StringValue s \<Rightarrow> indexOf s ''now'' = - 1
      | OtherValue x \<Rightarrow> True)"

text \<open>The calls that reach the relative-expression engine (\<^verbatim>\<open>datemath\<close>).\<close>

fun isEngineCall :: "'dt Call \<Rightarrow> bool" where
  "isEngineCall (IsValid _) = True"
| "isEngineCall (Parse _ _ _) = True"
| "isEngineCall _ = False"

section \<open>lodash's \<^verbatim>\<open>lowerCase\<close> on ASCII text\<close>

text \<open>
  \<^verbatim>\<open>lowerCase\<close> is not \<^verbatim>\<open>toLowerCase\<close>: lodash documents it as "converts string, as space
  separated words, to lower case". It removes apostrophes, splits the string into words
  with \<^verbatim>\<open>words\<close>, and joins the lower-cased words with single blanks. The definitions below
  follow lodash 4 for 7-bit ASCII text, where \<^verbatim>\<open>deburr\<close> changes nothing, the class
  \<^verbatim>\<open>rsMisc\<close> is empty and \<^verbatim>\<open>rsBreak\<close> is every character that is neither a letter nor a digit.
\<close>

definition isUpper :: "char \<Rightarrow> bool" where
  "isUpper c = (c \<in> set ''ABCDEFGHIJKLMNOPQRSTUVWXYZ'')"

definition isLower :: "char \<Rightarrow> bool" where
  "isLower c = (c \<in> set ''abcdefghijklmnopqrstuvwxyz'')"

definition isDigit :: "char \<Rightarrow> bool" where
  "isDigit c = (c \<in> set ''0123456789'')"

definition isBreak :: "char \<Rightarrow> bool" where
  "isBreak c = (\<not> isUpper c \<and> \<not> isLower c \<and> \<not> isDigit c)"

text \<open>\<^verbatim>\<open>String.prototype.toLowerCase\<close>.\<close>

definition toLowerCase :: "string \<Rightarrow> string" where
  "toLowerCase =
     map (\<lambda>c. case map_of (zip ''ABCDEFGHIJKLMNOPQRSTUVWXYZ'' ''abcdefghijklmnopqrstuvwxyz'') c of
                 Some l \<Rightarrow> l | None \<Rightarrow> c)"

text \<open>
  \<^verbatim>\<open>reHasUnicodeWord\<close>: a lower-case letter before an upper-case one, two upper-case letters
  before a lower-case one, a digit beside a letter, or a character that is not a letter, a
  digit or a blank.
\<close>

fun hasUnicodeWord :: "string \<Rightarrow> bool" where
  "hasUnicodeWord [] = False"
| "hasUnicodeWord (a # s) =
     ((case s of
         b # t \<Rightarrow>
           (isLower a \<and> isUpper b)
           \<or> (isUpper a \<and> isUpper b \<and> (case t of c # _ \<Rightarrow> isLower c | [] \<Rightarrow> False))
           \<or> (isDigit a \<and> (isLower b \<or> isUpper b))
           \<or> ((isLower a \<or> isUpper a) \<and> isDigit b)
       | [] \<Rightarrow> False)
      \<or> (isBreak a \<and> a \<noteq> CHR '' '')
      \<or> hasUnicodeWord s)"

text \<open>\<^verbatim>\<open>asciiWords\<close>: the maximal runs of letters and digits; \<open>w\<close> is the run being read.\<close>

fun asciiWordsFrom :: "string \<Rightarrow> string \<Rightarrow> string list" where
  "asciiWordsFrom w [] = (if w = [] then [] else [w])"
| "asciiWordsFrom w (c # cs) =
     (if isBreak c then (if w = [] then [] else [w]) @ asciiWordsFrom [] cs
      else asciiWordsFrom (w @ [c]) cs)"

definition asciiWords :: "string \<Rightarrow> string list" where
  "asciiWords s = asciiWordsFrom [] s"

text \<open>
  The alternatives of \<^verbatim>\<open>reUnicodeWord\<close>, each giving the length of its match at the head of
  the string. The contraction suffixes never match, the apostrophes being gone.
  \<open>upperLowerRun\<close> is \<^verbatim>\<open>rsUpper? rsLower+\<close>, with the text after the match.
\<close>

definition upperLowerRun :: "string \<Rightarrow> (nat \<times> string) option" where
  "upperLowerRun s =
     (let t = (case s of c # cs \<Rightarrow> if isUpper c then cs else s | [] \<Rightarrow> s);
          ls = takeWhile isLower t
      in if ls = [] then None
         else Some (length s - length t + length ls, dropWhile isLower t))"

text \<open>\<^verbatim>\<open>rsUpper? rsLower+ (?=rsBreak|rsUpper|$)\<close>\<close>

definition lowerWordAhead :: "string \<Rightarrow> nat option" where
  "lowerWordAhead s =
     (case upperLowerRun s of
        None \<Rightarrow> None
      | Some (n, rest) \<Rightarrow>
          (case rest of
             [] \<Rightarrow> Some n
           | r # _ \<Rightarrow> if isBreak r \<or> isUpper r then Some n else None))"

text \<open>
  \<^verbatim>\<open>rsUpper+ (?=rsBreak|rsUpper rsLower|$)\<close>: before a lower-case letter the match gives back
  its last upper-case letter, which starts the next word.
\<close>

definition upperWordAhead :: "string \<Rightarrow> nat option" where
  "upperWordAhead s =
     (let n = length (takeWhile isUpper s)
      in if n = 0 then None
         else (case dropWhile isUpper s of
                 [] \<Rightarrow> Some n
               | r # _ \<Rightarrow>
                   if isBreak r then Some n
                   else if isLower r \<and> 2 \<le> n then Some (n - 1)
                   else None))"

text \<open>\<^verbatim>\<open>rsUpper? rsLower+\<close> and \<^verbatim>\<open>rsUpper+\<close>\<close>

definition lowerWord :: "string \<Rightarrow> nat option" where
  "lowerWord s = map_option fst (upperLowerRun s)"

definition upperWord :: "string \<Rightarrow> nat option" where
  "upperWord s = (let n = length (takeWhile isUpper s) in if n = 0 then None else Some n)"

text \<open>
  \<^verbatim>\<open>rsOrdUpper\<close> and \<^verbatim>\<open>rsOrdLower\<close>: digits whose last one carries its ordinal ending (1st, 2nd,
  3rd, and th after any other digit) in letters of one case, not followed by a digit or by
  another letter of that case.
\<close>

definition ordinalEnding :: "char \<Rightarrow> string" where
  "ordinalEnding d =
     (if d = CHR ''1'' then ''st''
      else if d = CHR ''2'' then ''nd''
      else if d = CHR ''3'' then ''rd''
      else ''th'')"

definition ordinal :: "(char \<Rightarrow> bool) \<Rightarrow> string \<Rightarrow> nat option" where
  "ordinal sameCase s =
     (let ds = takeWhile isDigit s
      in if ds = [] then None
         else (case dropWhile isDigit s of
                 a # b # after \<Rightarrow>
                   if sameCase a \<and> sameCase b
                      \<and> toLowerCase [a, b] = ordinalEnding (last ds)
                      \<and> (case after of
                            [] \<Rightarrow> True
                          | x # _ \<Rightarrow> \<not> sameCase x \<and> \<not> isDigit x)
                   then Some (length ds + 2)
                   else None
               | _ \<Rightarrow> None))"

text \<open>\<^verbatim>\<open>rsDigits\<close>\<close>

definition digits :: "string \<Rightarrow> nat option" where
  "digits s = (let n = length (takeWhile isDigit s) in if n = 0 then None else Some n)"

fun firstMatch :: "nat option list \<Rightarrow> nat option" where
  "firstMatch [] = None"
| "firstMatch (Some n # _) = Some n"
| "firstMatch (None # ms) = firstMatch ms"

definition unicodeWordAt :: "string \<Rightarrow> nat option" where
  "unicodeWordAt s =
     firstMatch
       [lowerWordAhead s, upperWordAhead s, lowerWord s, upperWord s,
        ordinal isUpper s, ordinal isLower s,
        digits s]"

text \<open>
  \<^verbatim>\<open>unicodeWords\<close>: the matches of \<^verbatim>\<open>reUnicodeWord\<close> from left to right; a character at
  which no alternative matches is skipped.
\<close>

fun unicodeWords :: "string \<Rightarrow> string list" where
  "unicodeWords [] = []"
| "unicodeWords (c # cs) =
     (case unicodeWordAt (c # cs) of
        None \<Rightarrow> unicodeWords cs
      | Some n \<Rightarrow> take n (c # cs) # unicodeWords (drop (n - 1) cs))"

definition words :: "string \<Rightarrow> string list" where
  "words s = (if hasUnicodeWord s then unicodeWords s else asciiWords s)"

text \<open>
  \<^verbatim>\<open>lowerCase\<close>: the reducer appends each word in lower case, with a blank before every word
  but the first.
\<close>

definition lodash_lowerCase :: "string \<Rightarrow> string" where
  "lodash_lowerCase s =
     foldl (\<lambda>result (index, word). result @ (if index \<noteq> 0 then '' '' else []) @ toLowerCase word) []
       (enumerate (0::nat) (words (filter (\<lambda>c. c \<noteq> CHR 0x27) s)))"


section \<open>moment-timezone's zone lookup\<close>

text \<open>
  \<^verbatim>\<open>moment.tz.zone\<close> is moment-timezone's \<^verbatim>\<open>getZone\<close>. It puts the name in lower case with
  \<open>_\<close> for \<open>/\<close> (\<^verbatim>\<open>normalizeName\<close>) and looks the result up among the zones and links that
  are loaded, here the list of their names; the zone it returns carries the name it was
  loaded under. The tables are plain objects: for \<open>constructor\<close> and \<open>__proto__\<close> the lookup
  finds a property of \<^verbatim>\<open>Object.prototype\<close>, goes on with it as the name of a link, and ends
  with a \<^verbatim>\<open>TypeError\<close>.
\<close>

definition normalizeName :: "string \<Rightarrow> string" where
  "normalizeName n = map (\<lambda>c. if c = CHR ''/'' then CHR ''_'' else c) (toLowerCase n)"

definition getZone :: "string list \<Rightarrow> string \<Rightarrow> JsError + MomentZone option" where
  "getZone names n =
     (if normalizeName n \<in> set [''constructor'', ''__proto__''] then Inl TypeError
      else (case find (\<lambda>c. normalizeName c = normalizeName n) names of
              Some c \<Rightarrow> Inr (Some \<lparr> name = c \<rparr>)
            | None \<Rightarrow> Inr None))"

section \<open>An example environment\<close>

text \<open>
  Instants that record how they were made, and a set of collaborators over them: an
  engine that knows three expressions and cannot evaluate one of them, moment-timezone's
  lookup over a few of the names of its zone data, and lodash's \<^verbatim>\<open>lowerCase\<close>.
\<close>

datatype Stamp =
    WallClock
  | Relative string "bool option" "string option"
  | InZone "Stamp DateTimeInput" string
  | InUtc "Stamp DateTimeInput"
  | InLocal "Stamp DateTimeInput"

definition sampleZoneNames :: "string list" where
  "sampleZoneNames = [''UTC'', ''Etc/UTC'', ''Europe/Oslo'', ''America/New_York'']"

definition sampleEnv :: "Stamp Collaborators" where
  "sampleEnv =
     \<lparr> isValid = (\<lambda>s. s \<in> set [''now'', ''now-6h'', ''now/fy'']),
       parse = (\<lambda>s r t. if s = ''now/fy'' then None else Some (Relative s r t)),
       getTimeZone =
         (\<lambda>opts. case Option.bind opts timeZone of Some tz \<Rightarrow> tz | None \<Rightarrow> ''browser''),
       tz_zone = getZone sampleZoneNames,
       moment_tz = InZone,
       moment_utc = InUtc,
       moment_of = InLocal,
       moment_now = WallClock,
       lowerCase = lodash_lowerCase \<rparr>"

section \<open>Properties\<close>

lemma indexOfFrom_found: "indexOfFrom p s k \<noteq> - 1 \<longleftrightarrow> sublist p s"
proof (induction s arbitrary: k)
  case Nil
  then show ?case by simp
next
  case (Cons c cs)
  then show ?case by (simp add: sublist_Cons_right)
qed

lemma indexOf_found: "indexOf s p \<noteq> - 1 \<longleftrightarrow> sublist p s"
  by (simp add: indexOf_def indexOfFrom_found)

text \<open>The index returned is that of the first occurrence.\<close>

lemma indexOfFrom_first:
  "indexOfFrom p s k \<noteq> - 1 \<Longrightarrow>
     \<exists>i. indexOfFrom p s k = int (k + i) \<and> prefix p (drop i s)
         \<and> (\<forall>j<i. \<not> prefix p (drop j s))"
proof (induction s arbitrary: k)
  case Nil
  then show ?case by (auto split: if_splits)
next
  case (Cons c cs)
  show ?case
  proof (cases "prefix p (c # cs)")
    case True
    then have "indexOfFrom p (c # cs) k = int (k + 0) \<and> prefix p (drop 0 (c # cs))
                 \<and> (\<forall>j<0. \<not> prefix p (drop j (c # cs)))"
      by simp
    then show ?thesis by blast
  next
    case False
    with Cons.prems have "indexOfFrom p cs (Suc k) \<noteq> - 1" by simp
    from Cons.IH [OF this] obtain i where
      i: "indexOfFrom p cs (Suc k) = int (Suc k + i)" "prefix p (drop i cs)"
         "\<forall>j<i. \<not> prefix p (drop j cs)"
      by blast
    have "\<forall>j<Suc i. \<not> prefix p (drop j (c # cs))"
    proof (intro allI impI)
      fix j
      assume "j < Suc i"
      with False i(3) show "\<not> prefix p (drop j (c # cs))"
        by (cases j) simp_all
    qed
    with False i(1,2)
    have "indexOfFrom p (c # cs) k = int (k + Suc i) \<and> prefix p (drop (Suc i) (c # cs))
            \<and> (\<forall>j<Suc i. \<not> prefix p (drop j (c # cs)))"
      by simp
    then show ?thesis by blast
  qed
qed

lemma indexOf_first:
  "indexOf s p \<noteq> - 1 \<Longrightarrow>
     \<exists>i. indexOf s p = int i \<and> prefix p (drop i s) \<and> (\<forall>j<i. \<not> prefix p (drop j s))"
  using indexOfFrom_first [of p s 0] by (simp add: indexOf_def)

lemma indexOf_examples:
  "indexOf ''now-6h'' ''now'' = 0"
  "indexOf ''until now'' ''now'' = 6"
  "indexOf ''NOW-6h'' ''now'' = - 1"
  "indexOf [] ''now'' = - 1"
  by (simp_all add: indexOf_def)

lemma reachesParseOthers_string:
  "reachesParseOthers (StringValue s) \<longleftrightarrow> \<not> sublist ''now'' s"
  using indexOf_found [of s "''now''"] by (auto simp add: reachesParseOthers_def)

text \<open>The examples of lodash's documentation of \<^verbatim>\<open>lowerCase\<close> and of \<^verbatim>\<open>words\<close>.\<close>

lemma lowerCase_examples:
  "lodash_lowerCase ''--Foo-Bar--'' = ''foo bar''"
  "lodash_lowerCase ''fooBar'' = ''foo bar''"
  "lodash_lowerCase ''__FOO_BAR__'' = ''foo bar''"
  "words ''fred, barney, & pebbles'' = [''fred'', ''barney'', ''pebbles'']"
  by code_simp+

text \<open>
  The words of a string are made of its letters and digits, all of them and in their
  order; so \<^verbatim>\<open>lowerCase\<close> returns these characters in lower case, with blanks between the
  words.
\<close>

lemma lower_not_upper: "isLower c \<Longrightarrow> \<not> isUpper c"
  by (auto simp add: isLower_def isUpper_def)























lemma toLowerCase_concat: "concat (map toLowerCase ws) = toLowerCase (concat ws)"
  by (simp add: toLowerCase_def map_concat)





lemma parseOthers_no_engine_call:
  "\<not> list_ex isEngineCall (fst (parseOthers env v options))"
  by (simp add: parseOthers_def Let_def split: option.split sum.split)

lemma dateTimeParse_generic_string:
  "\<not> sublist ''now'' s \<Longrightarrow>
     dateTimeParse env (StringValue s) options = parseOthers env (StringValue s) options"
  by (simp add: dateTimeParse_def parseString_def indexOf_found)

lemma dateTimeParse_generic:
  "reachesParseOthers v \<Longrightarrow> dateTimeParse env v options = parseOthers env v options"
  by (cases v) (simp_all add: reachesParseOthers_def dateTimeParse_def parseString_def)

lemma dateTimeParse_relative_string:
  "sublist ''now'' s \<Longrightarrow>
     dateTimeParse env (StringValue s) options =
       (if \<not> isValid env s then ([IsValid s, MomentNow], Inr (moment_now env))
        else
          (case parse env s (Option.bind options roundUp) (Option.bind options timeZone) of
             Some parsed \<Rightarrow>
               ([IsValid s, Parse s (Option.bind options roundUp) (Option.bind options timeZone)],
                Inr parsed)
           | None \<Rightarrow>
               ([IsValid s, Parse s (Option.bind options roundUp) (Option.bind options timeZone),
                 MomentNow],
                Inr (moment_now env))))"
  using indexOf_found [of s "''now''"]
  by (simp add: dateTimeParse_def parseString_def Let_def)

text \<open>
  C1. A string reaches the relative-expression engine exactly when \<open>now\<close> occurs in it;
  a string without \<open>now\<close> is handed to \<^verbatim>\<open>parseOthers\<close>, as every value is that is neither a
  \<^verbatim>\<open>DateTime\<close> nor a string.
\<close>

theorem string_routing:
  "(list_ex isEngineCall (fst (dateTimeParse env (StringValue s) options)) \<longleftrightarrow> sublist ''now'' s)
   \<and> (\<not> sublist ''now'' s \<longrightarrow>
        dateTimeParse env (StringValue s) options = parseOthers env (StringValue s) options)
   \<and> dateTimeParse env (OtherValue x) options = parseOthers env (OtherValue x) options"
proof (intro conjI impI)
  show "list_ex isEngineCall (fst (dateTimeParse env (StringValue s) options)) \<longleftrightarrow> sublist ''now'' s"
  proof (cases "sublist ''now'' s")
    case True
    then show ?thesis
      by (simp add: dateTimeParse_relative_string split: option.split)
  next
    case False
    then show ?thesis
      by (simp add: dateTimeParse_generic_string parseOthers_no_engine_call)
  qed
next
  assume "\<not> sublist ''now'' s"
  then show "dateTimeParse env (StringValue s) options = parseOthers env (StringValue s) options"
    by (rule dateTimeParse_generic_string)
next
  show "dateTimeParse env (OtherValue x) options = parseOthers env (OtherValue x) options"
    by (simp add: dateTimeParse_def)
qed

theorem string_routing_witness:
  "\<not> sublist ''now'' ''2020-03-02 15:00:22''
   \<and> dateTimeParse sampleEnv (StringValue ''2020-03-02 15:00:22'') None
       = parseOthers sampleEnv (StringValue ''2020-03-02 15:00:22'') None
   \<and> \<not> list_ex isEngineCall (fst (dateTimeParse sampleEnv (StringValue ''2020-03-02 15:00:22'') None))
   \<and> sublist ''now'' ''now-6h''
   \<and> list_ex isEngineCall (fst (dateTimeParse sampleEnv (StringValue ''now-6h'') None))"
proof -
  have a: "\<not> sublist ''now'' ''2020-03-02 15:00:22''"
    by (simp add: sublist_Cons_right)
  have b: "sublist ''now'' ''now-6h''"
    by (simp add: sublist_Cons_right)
  note absolute = string_routing [of sampleEnv "''2020-03-02 15:00:22''" None "Epoch 0"]
  note relative = string_routing [of sampleEnv "''now-6h''" None "Epoch 0"]
  from a absolute
  have "dateTimeParse sampleEnv (StringValue ''2020-03-02 15:00:22'') None
          = parseOthers sampleEnv (StringValue ''2020-03-02 15:00:22'') None"
    and "\<not> list_ex isEngineCall (fst (dateTimeParse sampleEnv (StringValue ''2020-03-02 15:00:22'') None))"
    by blast+
  moreover from b relative
  have "list_ex isEngineCall (fst (dateTimeParse sampleEnv (StringValue ''now-6h'') None))"
    by blast
  ultimately show ?thesis using a b by blast
qed

text \<open>
  C2. A string that contains \<open>now\<close> and that \<^verbatim>\<open>isValid\<close> rejects resolves to \<^verbatim>\<open>moment()\<close>, the
  instant of the wall clock; \<^verbatim>\<open>parse\<close> is not called.
\<close>

theorem invalid_expression_gives_now:
  "sublist ''now'' s \<Longrightarrow> \<not> isValid env s \<Longrightarrow>
     dateTimeParse env (StringValue s) options
       = ([IsValid s, MomentNow], Inr (moment_now env))"
  by (simp add: dateTimeParse_relative_string)

theorem invalid_expression_gives_now_witness:
  "sublist ''now'' ''nownownow'' \<and> \<not> isValid sampleEnv ''nownownow''
   \<and> dateTimeParse sampleEnv (StringValue ''nownownow'') None
       = ([IsValid ''nownownow'', MomentNow], Inr WallClock)"
proof -
  have a: "sublist ''now'' ''nownownow''"
    by (simp add: sublist_Cons_right)
  have b: "\<not> isValid sampleEnv ''nownownow''"
    by (simp add: sampleEnv_def)
  from invalid_expression_gives_now [OF a b, of None] a b
  show ?thesis by (simp add: sampleEnv_def)
qed

text \<open>
  C5. A string that contains \<open>now\<close> and passes \<^verbatim>\<open>isValid\<close>, but for which \<^verbatim>\<open>parse\<close> returns
  nothing, resolves to \<^verbatim>\<open>moment()\<close>.
\<close>

theorem unevaluated_expression_gives_now:
  "sublist ''now'' s \<Longrightarrow> isValid env s \<Longrightarrow>
   parse env s (Option.bind options roundUp) (Option.bind options timeZone) = None \<Longrightarrow>
     dateTimeParse env (StringValue s) options =
       ([IsValid s, Parse s (Option.bind options roundUp) (Option.bind options timeZone), MomentNow],
        Inr (moment_now env))"
  by (simp add: dateTimeParse_relative_string)

theorem unevaluated_expression_gives_now_witness:
  "sublist ''now'' ''now/fy'' \<and> isValid sampleEnv ''now/fy''
   \<and> parse sampleEnv ''now/fy'' (Some True) (Some ''utc'') = None
   \<and> dateTimeParse sampleEnv (StringValue ''now/fy'')
         (Some \<lparr> timeZone = Some ''utc'', roundUp = Some True \<rparr>)
       = ([IsValid ''now/fy'', Parse ''now/fy'' (Some True) (Some ''utc''), MomentNow],
          Inr WallClock)"
proof -
  have a: "sublist ''now'' ''now/fy''"
    by (simp add: sublist_Cons_right)
  have b: "isValid sampleEnv ''now/fy''"
    by (simp add: sampleEnv_def)
  have c: "parse sampleEnv ''now/fy''
             (Option.bind (Some \<lparr> timeZone = Some ''utc'', roundUp = Some True \<rparr>) roundUp)
             (Option.bind (Some \<lparr> timeZone = Some ''utc'', roundUp = Some True \<rparr>) timeZone) = None"
    by (simp add: sampleEnv_def)
  from unevaluated_expression_gives_now [OF a b c] a b c
  show ?thesis by (simp add: sampleEnv_def)
qed


text \<open>
  C10. The test for \<open>now\<close> compares characters exactly. A string in which \<open>now\<close> occurs only
  in another casing (it occurs once the string is put in lower case, and not before) does
  not reach the engine: it is resolved by \<^verbatim>\<open>parseOthers\<close>.
\<close>

theorem now_test_is_case_sensitive:
  "sublist ''now'' (toLowerCase s) \<Longrightarrow> \<not> sublist ''now'' s \<Longrightarrow>
     \<not> list_ex isEngineCall (fst (dateTimeParse env (StringValue s) options))
     \<and> dateTimeParse env (StringValue s) options = parseOthers env (StringValue s) options"
  by (simp add: dateTimeParse_generic_string parseOthers_no_engine_call)

theorem now_test_is_case_sensitive_witness:
  "sublist ''now'' (toLowerCase ''NOW-1h'') \<and> \<not> sublist ''now'' ''NOW-1h''
   \<and> \<not> list_ex isEngineCall (fst (dateTimeParse sampleEnv (StringValue ''NOW-1h'') None))
   \<and> dateTimeParse sampleEnv (StringValue ''NOW-1h'') None
       = ([GetTimeZone None, TzZone ''browser'', LowerCase ''browser'',
           Moment (StringValue ''NOW-1h'')],
          Inr (InLocal (StringValue ''NOW-1h'')))"
proof -
  have a: "sublist ''now'' (toLowerCase ''NOW-1h'')"
    by (simp add: toLowerCase_def sublist_Cons_right)
  have b: "\<not> sublist ''now'' ''NOW-1h''"
    by (simp add: sublist_Cons_right)
  have c: "parseOthers sampleEnv (StringValue ''NOW-1h'') None
             = ([GetTimeZone None, TzZone ''browser'', LowerCase ''browser'',
                 Moment (StringValue ''NOW-1h'')],
                Inr (InLocal (StringValue ''NOW-1h'')))"
    by code_simp
  from now_test_is_case_sensitive [OF a b, of sampleEnv None] a b c
  show ?thesis by simp
qed

text \<open>
  C9. \<^verbatim>\<open>roundUp\<close> is read only on the way to the engine. For a \<^verbatim>\<open>DateTime\<close>, a string without
  \<open>now\<close> and any other value, two calls whose options differ in \<^verbatim>\<open>roundUp\<close> alone make the
  same calls and return the same instant.
\<close>

theorem roundUp_only_affects_relative_expressions:
  "(\<exists>d. v = DateTimeValue d) \<or> reachesParseOthers v \<Longrightarrow>
     dateTimeParse env v (Some (options\<lparr>roundUp := ra\<rparr>))
       = dateTimeParse env v (Some (options\<lparr>roundUp := rb\<rparr>))"
proof (elim disjE exE)
  fix d
  assume "v = DateTimeValue d"
  then show ?thesis by (simp add: dateTimeParse_def)
next
  assume "reachesParseOthers v"
  then show ?thesis
    by (simp add: dateTimeParse_generic parseOthers_def DateTimeOptions.truncate_def)
qed

theorem roundUp_only_affects_relative_expressions_witness:
  "reachesParseOthers (StringValue ''2020-03-02 15:00:22'' :: Stamp DateTimeInput)
   \<and> dateTimeParse sampleEnv (StringValue ''2020-03-02 15:00:22'')
         (Some \<lparr> timeZone = Some ''Europe/Oslo'', roundUp = Some True \<rparr>)
       = dateTimeParse sampleEnv (StringValue ''2020-03-02 15:00:22'')
           (Some \<lparr> timeZone = Some ''Europe/Oslo'', roundUp = Some False \<rparr>)
   \<and> dateTimeParse sampleEnv (StringValue ''now-6h'')
         (Some \<lparr> timeZone = Some ''Europe/Oslo'', roundUp = Some True \<rparr>)
       \<noteq> dateTimeParse sampleEnv (StringValue ''now-6h'')
           (Some \<lparr> timeZone = Some ''Europe/Oslo'', roundUp = Some False \<rparr>)"
proof -
  have a: "reachesParseOthers (StringValue ''2020-03-02 15:00:22'' :: Stamp DateTimeInput)"
    by code_simp
  have b: "dateTimeParse sampleEnv (StringValue ''now-6h'')
             (Some \<lparr> timeZone = Some ''Europe/Oslo'', roundUp = Some True \<rparr>)
           \<noteq> dateTimeParse sampleEnv (StringValue ''now-6h'')
               (Some \<lparr> timeZone = Some ''Europe/Oslo'', roundUp = Some False \<rparr>)"
    by code_simp
  from roundUp_only_affects_relative_expressions
         [OF disjI2, OF a, where env = sampleEnv
            and options = "\<lparr> timeZone = Some ''Europe/Oslo'', roundUp = None \<rparr>"
            and ra = "Some True" and rb = "Some False"]
    a b
  show ?thesis by simp
qed

text \<open>
  C8. The parser has no \<^verbatim>\<open>throw\<close> and no \<^verbatim>\<open>try\<close>. \<^verbatim>\<open>dateTimeParse\<close> ends with an exception
  exactly when the value goes through \<^verbatim>\<open>parseOthers\<close> and \<^verbatim>\<open>moment.tz.zone\<close> throws for the
  effective timezone name; in every other case it returns an instant, and tests on
  values alone decide which: the argument itself for a \<^verbatim>\<open>DateTime\<close>; for a string with
  \<open>now\<close> the engine's result, or \<^verbatim>\<open>moment()\<close> when the engine rejects the string or returns
  nothing; otherwise \<^verbatim>\<open>moment.tz\<close> in the zone the database returns, or \<^verbatim>\<open>moment.utc\<close> or
  \<^verbatim>\<open>moment\<close> by the literal match.
\<close>

theorem dateTimeParse_returns_unless_lookup_throws:
  "opts = map_option DateTimeOptions.truncate options \<Longrightarrow>
   tz = getTimeZone env opts \<Longrightarrow>
     (snd (dateTimeParse env v options) = Inl TypeError
        \<longleftrightarrow> reachesParseOthers v \<and> tz_zone env tz = Inl TypeError)
     \<and> snd (dateTimeParse env v options) =
         (let literal = (if lowerCase env tz = ''utc'' then moment_utc env v else moment_of env v);
              zoned =
                (case tz_zone env tz of
                   Inl e \<Rightarrow> Inl e
                 | Inr None \<Rightarrow> Inr literal
                 | Inr (Some z) \<Rightarrow>
                     Inr (if name z \<noteq> [] then moment_tz env v (name z) else literal))
          in case v of
               DateTimeValue d \<Rightarrow> Inr d
             | StringValue s \<Rightarrow>
                 if sublist ''now'' s then
                   Inr (if isValid env s then
                          (case parse env s (Option.bind options roundUp)
                                  (Option.bind options timeZone) of
                             Some parsed \<Rightarrow> parsed
                           | None \<Rightarrow> moment_now env)
                        else moment_now env)
                 else zoned
             | OtherValue x \<Rightarrow> zoned)"
proof (cases v)
  case (DateTimeValue d)
  then show ?thesis
    by (simp add: dateTimeParse_def reachesParseOthers_def)
next
  case (OtherValue x)
  assume "opts = map_option DateTimeOptions.truncate options" "tz = getTimeZone env opts"
  with OtherValue show ?thesis
    by (cases "tz_zone env tz")
       (auto simp add: dateTimeParse_def reachesParseOthers_def parseOthers_def Let_def
          split: option.splits JsError.splits)
next
  case (StringValue s)
  assume eqs: "opts = map_option DateTimeOptions.truncate options" "tz = getTimeZone env opts"
  show ?thesis
  proof (cases "sublist ''now'' s")
    case True
    with StringValue show ?thesis
      by (simp add: dateTimeParse_relative_string reachesParseOthers_string split: option.split)
  next
    case False
    with StringValue eqs show ?thesis
      by (cases "tz_zone env tz")
         (auto simp add: dateTimeParse_generic_string reachesParseOthers_string parseOthers_def
            Let_def split: option.splits JsError.splits)
  qed
qed

theorem dateTimeParse_returns_unless_lookup_throws_witness:
  "snd (dateTimeParse sampleEnv (StringValue ''2020-03-02 15:00:22'')
          (Some \<lparr> timeZone = Some ''Europe/Oslo'', roundUp = None \<rparr>))
     = Inr (InZone (StringValue ''2020-03-02 15:00:22'') ''Europe/Oslo'')
   \<and> snd (dateTimeParse sampleEnv (StringValue ''2020-03-02 15:00:22'')
          (Some \<lparr> timeZone = Some ''Europe/Oslo'', roundUp = None \<rparr>))
     \<noteq> Inl TypeError"
proof -
  let ?options = "Some \<lparr> timeZone = Some ''Europe/Oslo'', roundUp = None \<rparr>"
  have a: "Some \<lparr> timeZone = Some ''Europe/Oslo'' \<rparr> = map_option DateTimeOptions.truncate ?options"
    by (simp add: DateTimeOptions.truncate_def)
  have b: "''Europe/Oslo'' = getTimeZone sampleEnv (Some \<lparr> timeZone = Some ''Europe/Oslo'' \<rparr>)"
    by (simp add: sampleEnv_def)
  have c: "tz_zone sampleEnv ''Europe/Oslo'' = Inr (Some \<lparr> name = ''Europe/Oslo'' \<rparr>)"
    by code_simp
  have d: "\<not> sublist ''now'' ''2020-03-02 15:00:22''"
    by (simp add: sublist_Cons_right)
  from dateTimeParse_returns_unless_lookup_throws
         [OF a b, of "StringValue ''2020-03-02 15:00:22''"] c d
  show ?thesis
    by (simp add: sampleEnv_def)
qed

text \<open>
  C8. \<^verbatim>\<open>dateTimeParse\<close> does throw: for the timezone name \<open>constructor\<close> the lookup of
  moment-timezone ends with a \<^verbatim>\<open>TypeError\<close>, which the parser lets through.
\<close>

theorem zone_lookup_exception_propagates:
  "dateTimeParse sampleEnv (StringValue ''2020-03-02 15:00:22'')
      (Some \<lparr> timeZone = Some ''constructor'', roundUp = None \<rparr>)
    = ([GetTimeZone (Some \<lparr> timeZone = Some ''constructor'' \<rparr>), TzZone ''constructor''],
       Inl TypeError)"
  by code_simp






text \<open>The five other casings of \<open>utc\<close> are split into two words.\<close>

lemma lowerCase_utc_split_spellings:
  "lodash_lowerCase ''uTc'' = ''u tc''"
  "lodash_lowerCase ''utC'' = ''ut c''"
  "lodash_lowerCase ''uTC'' = ''u tc''"
  "lodash_lowerCase ''UtC'' = ''ut c''"
  "lodash_lowerCase ''UTc'' = ''u tc''"
  by code_simp+




lemma getZone_named:
  "[] \<notin> set names \<Longrightarrow> getZone names n = Inr (Some z) \<Longrightarrow> name z \<noteq> []"
  by (auto simp add: getZone_def find_Some_iff in_set_conv_nth split: if_splits option.splits)



text \<open>
  C3. On the way through \<^verbatim>\<open>parseOthers\<close> the effective timezone name is looked up in the
  timezone database before anything else is done with it. When the database returns a
  zone whose name is not empty, the value is resolved by \<^verbatim>\<open>moment.tz\<close> in the zone of that
  name. With a database whose zones carry their names, as those of moment-timezone do,
  the literal match on the requested name (\<^verbatim>\<open>moment.utc\<close> for \<open>utc\<close>, \<^verbatim>\<open>moment\<close> otherwise) is
  made only when the lookup has returned no zone, and then it decides the result.
\<close>

theorem zone_lookup_before_literal_match:
  "reachesParseOthers v \<Longrightarrow>
   opts = map_option DateTimeOptions.truncate options \<Longrightarrow>
   tz = getTimeZone env opts \<Longrightarrow>
     take 2 (fst (dateTimeParse env v options)) = [GetTimeZone opts, TzZone tz]
     \<and> (\<forall>z. tz_zone env tz = Inr (Some z) \<and> name z \<noteq> [] \<longrightarrow>
           dateTimeParse env v options
             = ([GetTimeZone opts, TzZone tz, MomentTz v (name z)],
                Inr (moment_tz env v (name z))))
     \<and> ((\<forall>z. tz_zone env tz = Inr (Some z) \<longrightarrow> name z \<noteq> []) \<longrightarrow>
          (LowerCase tz \<in> set (fst (dateTimeParse env v options))
             \<longleftrightarrow> tz_zone env tz = Inr None))
     \<and> (tz_zone env tz = Inr None \<longrightarrow>
           dateTimeParse env v options
             = (if lowerCase env tz = ''utc''
                then ([GetTimeZone opts, TzZone tz, LowerCase tz, MomentUtc v],
                      Inr (moment_utc env v))
                else ([GetTimeZone opts, TzZone tz, LowerCase tz, Moment v],
                      Inr (moment_of env v))))"
  by (cases "tz_zone env tz")
     (auto simp add: dateTimeParse_generic parseOthers_def Let_def split: option.splits)

theorem zone_lookup_before_literal_match_witness:
  "reachesParseOthers (OtherValue (Epoch 1583161222000) :: Stamp DateTimeInput)
   \<and> tz_zone sampleEnv ''Europe/Oslo'' = Inr (Some \<lparr> name = ''Europe/Oslo'' \<rparr>)
   \<and> dateTimeParse sampleEnv (OtherValue (Epoch 1583161222000))
         (Some \<lparr> timeZone = Some ''Europe/Oslo'', roundUp = None \<rparr>)
       = ([GetTimeZone (Some \<lparr> timeZone = Some ''Europe/Oslo'' \<rparr>), TzZone ''Europe/Oslo'',
           MomentTz (OtherValue (Epoch 1583161222000)) ''Europe/Oslo''],
          Inr (InZone (OtherValue (Epoch 1583161222000)) ''Europe/Oslo''))
   \<and> LowerCase ''Europe/Oslo''
       \<notin> set (fst (dateTimeParse sampleEnv (OtherValue (Epoch 1583161222000))
                      (Some \<lparr> timeZone = Some ''Europe/Oslo'', roundUp = None \<rparr>)))
   \<and> tz_zone sampleEnv ''browser'' = Inr None
   \<and> LowerCase ''browser''
       \<in> set (fst (dateTimeParse sampleEnv (OtherValue (Epoch 1583161222000)) None))"
proof -
  let ?options = "Some \<lparr> timeZone = Some ''Europe/Oslo'', roundUp = None \<rparr>"
  let ?v = "OtherValue (Epoch 1583161222000) :: Stamp DateTimeInput"
  have a: "reachesParseOthers ?v"
    by (simp add: reachesParseOthers_def)
  have b: "Some \<lparr> timeZone = Some ''Europe/Oslo'' \<rparr> = map_option DateTimeOptions.truncate ?options"
    by (simp add: DateTimeOptions.truncate_def)
  have c: "''Europe/Oslo'' = getTimeZone sampleEnv (Some \<lparr> timeZone = Some ''Europe/Oslo'' \<rparr>)"
    by (simp add: sampleEnv_def)
  have d: "tz_zone sampleEnv ''Europe/Oslo'' = Inr (Some \<lparr> name = ''Europe/Oslo'' \<rparr>)"
    by code_simp
  note two_tier = zone_lookup_before_literal_match [OF a b c]
  from two_tier d
  have e: "dateTimeParse sampleEnv ?v ?options
             = ([GetTimeZone (Some \<lparr> timeZone = Some ''Europe/Oslo'' \<rparr>), TzZone ''Europe/Oslo'',
                 MomentTz ?v (name \<lparr> name = ''Europe/Oslo'' \<rparr>)],
                Inr (moment_tz sampleEnv ?v (name \<lparr> name = ''Europe/Oslo'' \<rparr>)))"
    by simp
  from two_tier d
  have f: "LowerCase ''Europe/Oslo'' \<notin> set (fst (dateTimeParse sampleEnv ?v ?options))"
    by simp
  have g: "None = map_option DateTimeOptions.truncate (None :: DateTimeOptionsWhenParsing option)"
    by simp
  have h: "''browser'' = getTimeZone sampleEnv None"
    by (simp add: sampleEnv_def)
  have i: "tz_zone sampleEnv ''browser'' = Inr None"
    by code_simp
  from zone_lookup_before_literal_match [OF a g h] i
  have j: "LowerCase ''browser'' \<in> set (fst (dateTimeParse sampleEnv ?v None))"
    by simp
  from a d e f i j show ?thesis
    by (simp add: sampleEnv_def)
qed

text \<open>
  C4. A value that is already a \<^verbatim>\<open>DateTime\<close> is returned as it is, whatever the options:
  no imported function is called on the way, so nothing is read and nothing can fail.
\<close>

theorem dateTimeParse_DateTime_identity:
  "dateTimeParse env (DateTimeValue d) options = ([], Inr d)"
  by (simp add: dateTimeParse_def)


end
